theory Spec2Isabelle
  imports Main "HOL-Library.Word"
begin

section \<open>The LCShim system-call layer of vminitd\<close>

text \<open>
  The layer is four C functions (\<^verbatim>\<open>syscall.c\<close>) and one header (\<^verbatim>\<open>syscall.h\<close>).
  Each function hands its arguments to one function of the C library
  (\<^verbatim>\<open>syscall\<close> or \<^verbatim>\<open>prctl\<close>) and returns what comes back. The C library and the
  kernel behind it are not part of the repository: they are a parameter of the
  model, a pair of functions that answer a request from a kernel state and the
  current \<^verbatim>\<open>errno\<close> with a return value, a new kernel state and a new \<^verbatim>\<open>errno\<close>.
\<close>

subsection \<open>C types on LP64 Linux\<close>

text \<open>
  \<^verbatim>\<open>int\<close>, \<^verbatim>\<open>pid_t\<close> and \<^verbatim>\<open>unsigned int\<close> are 32 bits wide, \<^verbatim>\<open>long\<close> and pointers
  are 64 bits wide. Signed values are read with \<open>sint\<close>.
\<close>

type_synonym c_int = "32 word"
type_synonym c_uint = "32 word"
type_synonym c_long = "64 word"
type_synonym c_ptr = "64 word"

text \<open>
  \<^verbatim>\<open>return syscall(...)\<close> in a function declared \<^verbatim>\<open>int\<close> converts the \<^verbatim>\<open>long\<close>
  result to \<^verbatim>\<open>int\<close>. GCC and Clang keep the low 32 bits and read them as two's
  complement.
\<close>

definition long_to_int :: "c_long \<Rightarrow> c_int" where
  "long_to_int r = scast r"

text \<open>
  An argument in the variable part of a call to \<^verbatim>\<open>syscall\<close> or \<^verbatim>\<open>prctl\<close>, with the
  type it has at the call site.
\<close>

datatype carg = ArgPtr c_ptr | ArgInt c_int | ArgUInt c_uint

fun arg_is_zero :: "carg \<Rightarrow> bool" where
  "arg_is_zero (ArgPtr p) = (p = 0)"
| "arg_is_zero (ArgInt i) = (i = 0)"
| "arg_is_zero (ArgUInt u) = (u = 0)"

subsection \<open>The header: fallback system-call numbers\<close>

text \<open>
  \<^verbatim>\<open>syscall.h\<close> is a list of preprocessor directives. A macro table maps a name
  to its replacement: nothing (\<open>Blank\<close>) or an integer literal. Headers of the C
  library are a parameter \<open>sys\<close>: the change each one makes to the macro table.
\<close>

datatype macro_body = Blank | Num int

type_synonym macros = "string \<rightharpoonup> macro_body"

datatype directive =
    Define string macro_body
  | Ifndef string "directive list"
  | Include_sys string
  | Include_local "directive list"
  | Declare string

fun pp :: "(string \<Rightarrow> macros \<Rightarrow> macros) \<Rightarrow> directive \<Rightarrow> macros \<Rightarrow> macros"
and pps :: "(string \<Rightarrow> macros \<Rightarrow> macros) \<Rightarrow> directive list \<Rightarrow> macros \<Rightarrow> macros" where
  "pp sys (Define name body) m = m(name \<mapsto> body)"
| "pp sys (Ifndef name ds) m = (case m name of None \<Rightarrow> pps sys ds m | Some _ \<Rightarrow> m)"
| "pp sys (Include_sys h) m = sys h m"
| "pp sys (Include_local ds) m = pps sys ds m"
| "pp sys (Declare f) m = m"
| "pps sys [] m = m"
| "pps sys (d # ds) m = pps sys ds (pp sys d m)"

text \<open>\<^verbatim>\<open>include/syscall.h\<close>, lines 17 to 38.\<close>

definition syscall_h :: "directive list" where
  "syscall_h =
    [Ifndef ''__SYSCALL_H''
      [Define ''__SYSCALL_H'' Blank,
       Include_sys ''sys/types.h'',
       Declare ''CZ_pivot_root'',
       Declare ''CZ_set_sub_reaper'',
       Ifndef ''SYS_pidfd_open'' [Define ''SYS_pidfd_open'' (Num 434)],
       Declare ''CZ_pidfd_open'',
       Ifndef ''SYS_pidfd_getfd'' [Define ''SYS_pidfd_getfd'' (Num 438)],
       Declare ''CZ_pidfd_getfd'']]"

text \<open>The include lines of \<^verbatim>\<open>syscall.c\<close>, lines 17 to 21.\<close>

definition syscall_c_includes :: "directive list" where
  "syscall_c_includes =
    [Include_sys ''sys/prctl.h'',
     Include_sys ''sys/syscall.h'',
     Include_sys ''unistd.h'',
     Include_local syscall_h]"

subsection \<open>The constants the functions are compiled with\<close>

text \<open>
  \<^verbatim>\<open>SYS_pivot_root\<close> and \<^verbatim>\<open>PR_SET_CHILD_SUBREAPER\<close> come from the C library's
  headers, \<^verbatim>\<open>SYS_pidfd_open\<close> and \<^verbatim>\<open>SYS_pidfd_getfd\<close> from the C library or from
  the fallbacks of \<^verbatim>\<open>syscall.h\<close>. \<open>SYS_prctl\<close> is not used by the layer; it names
  the raw request that reaches \<^verbatim>\<open>prctl\<close> in the kernel.
\<close>

record platform =
  SYS_pivot_root :: c_long
  SYS_pidfd_open :: c_long
  SYS_pidfd_getfd :: c_long
  SYS_prctl :: c_long
  PR_SET_CHILD_SUBREAPER :: c_int

definition macro_num :: "macros \<Rightarrow> string \<Rightarrow> int option" where
  "macro_num m name = (case m name of Some (Num n) \<Rightarrow> Some n | _ \<Rightarrow> None)"

text \<open>
  The constants as the translation unit \<^verbatim>\<open>syscall.c\<close> sees them after its
  include lines; \<open>None\<close> when a name the code uses has no numeric definition
  (the file does not compile).
\<close>

definition platform_of :: "(string \<Rightarrow> macros \<Rightarrow> macros) \<Rightarrow> platform option" where
  "platform_of sys =
    (let m = pps sys syscall_c_includes Map.empty in
     case macro_num m ''SYS_pivot_root'' of None \<Rightarrow> None | Some a \<Rightarrow>
     case macro_num m ''SYS_pidfd_open'' of None \<Rightarrow> None | Some b \<Rightarrow>
     case macro_num m ''SYS_pidfd_getfd'' of None \<Rightarrow> None | Some c \<Rightarrow>
     case macro_num m ''SYS_prctl'' of None \<Rightarrow> None | Some d \<Rightarrow>
     case macro_num m ''PR_SET_CHILD_SUBREAPER'' of None \<Rightarrow> None | Some e \<Rightarrow>
       Some \<lparr>SYS_pivot_root = of_int a, SYS_pidfd_open = of_int b,
             SYS_pidfd_getfd = of_int c, SYS_prctl = of_int d,
             PR_SET_CHILD_SUBREAPER = of_int e\<rparr>)"

subsection \<open>The C library and the kernel\<close>

text \<open>
  \<^verbatim>\<open>long syscall(long number, ...)\<close> and \<^verbatim>\<open>int prctl(int option, ...)\<close>: the
  answer to a request, given the kernel's state \<open>'k\<close> (mount table, process
  table, descriptor tables, the subreaper flag) and the current \<^verbatim>\<open>errno\<close>.
\<close>

record 'k libc =
  syscall :: "c_long \<Rightarrow> carg list \<Rightarrow> 'k \<Rightarrow> c_int \<Rightarrow> c_long \<times> 'k \<times> c_int"
  prctl :: "c_int \<Rightarrow> carg list \<Rightarrow> 'k \<Rightarrow> c_int \<Rightarrow> c_int \<times> 'k \<times> c_int"

text \<open>
  One call into the C library, and the log entry it leaves: the call with the
  value that came back, read as a signed integer.
\<close>

datatype call =
    Syscall c_long "carg list"
  | Prctl c_int "carg list"

type_synonym event = "call \<times> int"

text \<open>The C library's answer to a call: return value, kernel state, \<^verbatim>\<open>errno\<close>.\<close>

fun answer :: "'k libc \<Rightarrow> call \<Rightarrow> 'k \<Rightarrow> c_int \<Rightarrow> int \<times> 'k \<times> c_int" where
  "answer L (Syscall n args) k e = (case syscall L n args k e of (r, k', e') \<Rightarrow> (sint r, k', e'))"
| "answer L (Prctl opt args) k e = (case prctl L opt args k e of (r, k', e') \<Rightarrow> (sint r, k', e'))"

text \<open>
  What a call can see and change: the kernel's state, \<^verbatim>\<open>errno\<close>, and the calls made
  so far. The record is extensible: whatever else the caller owns is the \<open>more\<close>
  part.
\<close>

record 'k world =
  kstate :: 'k
  errno :: c_int
  issued :: "event list"

text \<open>
  A call of \<^verbatim>\<open>syscall\<close> or \<^verbatim>\<open>prctl\<close> from the layer: the world takes the kernel
  state and \<^verbatim>\<open>errno\<close> of the answer, and the log takes the call.
\<close>

definition call_syscall ::
  "'k libc \<Rightarrow> c_long \<Rightarrow> carg list \<Rightarrow> ('k, 'm) world_scheme \<Rightarrow> c_long \<times> ('k, 'm) world_scheme" where
  "call_syscall L n args w =
    (case syscall L n args (kstate w) (errno w) of
       (r, k', e') \<Rightarrow>
         (r, w\<lparr>kstate := k', errno := e', issued := issued w @ [(Syscall n args, sint r)]\<rparr>))"

definition call_prctl ::
  "'k libc \<Rightarrow> c_int \<Rightarrow> carg list \<Rightarrow> ('k, 'm) world_scheme \<Rightarrow> c_int \<times> ('k, 'm) world_scheme" where
  "call_prctl L opt args w =
    (case prctl L opt args (kstate w) (errno w) of
       (r, k', e') \<Rightarrow>
         (r, w\<lparr>kstate := k', errno := e', issued := issued w @ [(Prctl opt args, sint r)]\<rparr>))"

subsection \<open>The four functions of \<^verbatim>\<open>syscall.c\<close>\<close>

definition CZ_pivot_root ::
  "platform \<Rightarrow> 'k libc \<Rightarrow> c_ptr \<Rightarrow> c_ptr \<Rightarrow> ('k, 'm) world_scheme \<Rightarrow> c_int \<times> ('k, 'm) world_scheme" where
  "CZ_pivot_root P L new_root put_old w =
    (case call_syscall L (SYS_pivot_root P) [ArgPtr new_root, ArgPtr put_old] w of
       (r, w') \<Rightarrow> (long_to_int r, w'))"

definition CZ_set_sub_reaper ::
  "platform \<Rightarrow> 'k libc \<Rightarrow> ('k, 'm) world_scheme \<Rightarrow> c_int \<times> ('k, 'm) world_scheme" where
  "CZ_set_sub_reaper P L w = call_prctl L (PR_SET_CHILD_SUBREAPER P) [ArgInt 1] w"

definition CZ_pidfd_open ::
  "platform \<Rightarrow> 'k libc \<Rightarrow> c_int \<Rightarrow> c_uint \<Rightarrow> ('k, 'm) world_scheme \<Rightarrow> c_int \<times> ('k, 'm) world_scheme" where
  "CZ_pidfd_open P L pid flags w =
    (case call_syscall L (SYS_pidfd_open P) [ArgInt pid, ArgUInt flags] w of
       (r, w') \<Rightarrow> (long_to_int r, w'))"

definition CZ_pidfd_getfd ::
  "platform \<Rightarrow> 'k libc \<Rightarrow> c_int \<Rightarrow> c_int \<Rightarrow> c_uint \<Rightarrow> ('k, 'm) world_scheme \<Rightarrow> c_int \<times> ('k, 'm) world_scheme" where
  "CZ_pidfd_getfd P L pidfd targetfd flags w =
    (case call_syscall L (SYS_pidfd_getfd P) [ArgInt pidfd, ArgInt targetfd, ArgUInt flags] w of
       (r, w') \<Rightarrow> (long_to_int r, w'))"

subsection \<open>A caller: any sequence of calls into the layer\<close>

datatype op =
    Pivot_root c_ptr c_ptr
  | Set_sub_reaper
  | Pidfd_open c_int c_uint
  | Pidfd_getfd c_int c_int c_uint

fun run_op ::
  "platform \<Rightarrow> 'k libc \<Rightarrow> op \<Rightarrow> ('k, 'm) world_scheme \<Rightarrow> c_int \<times> ('k, 'm) world_scheme" where
  "run_op P L (Pivot_root new_root put_old) w = CZ_pivot_root P L new_root put_old w"
| "run_op P L Set_sub_reaper w = CZ_set_sub_reaper P L w"
| "run_op P L (Pidfd_open pid flags) w = CZ_pidfd_open P L pid flags w"
| "run_op P L (Pidfd_getfd pidfd targetfd flags) w = CZ_pidfd_getfd P L pidfd targetfd flags w"

fun run_ops ::
  "platform \<Rightarrow> 'k libc \<Rightarrow> op list \<Rightarrow> ('k, 'm) world_scheme \<Rightarrow> c_int list \<times> ('k, 'm) world_scheme" where
  "run_ops P L [] w = ([], w)"
| "run_ops P L (x # xs) w =
    (case run_op P L x w of
       (r, w') \<Rightarrow> (case run_ops P L xs w' of (rs, w'') \<Rightarrow> (r # rs, w'')))"

subsection \<open>The request the specification gives each operation\<close>

text \<open>
  Sections 4.1 to 4.4 of the specification name one kernel request per
  operation. This table follows the specification, not the code: the theorems
  compare it with what \<open>run_op\<close> does.
\<close>

fun request_of :: "platform \<Rightarrow> op \<Rightarrow> call" where
  "request_of P (Pivot_root new_root put_old) =
     Syscall (SYS_pivot_root P) [ArgPtr new_root, ArgPtr put_old]"
| "request_of P Set_sub_reaper = Prctl (PR_SET_CHILD_SUBREAPER P) [ArgInt 1]"
| "request_of P (Pidfd_open pid flags) = Syscall (SYS_pidfd_open P) [ArgInt pid, ArgUInt flags]"
| "request_of P (Pidfd_getfd pidfd targetfd flags) =
     Syscall (SYS_pidfd_getfd P) [ArgInt pidfd, ArgInt targetfd, ArgUInt flags]"

subsection \<open>Requests that can clear the subreaper flag\<close>

text \<open>
  The kernel clears the flag on \<^verbatim>\<open>prctl(PR_SET_CHILD_SUBREAPER, 0)\<close>. A call of
  \<^verbatim>\<open>prctl\<close> with that option counts when its second argument is zero or
  missing (then the kernel reads whatever the register holds); a raw request
  with the number of \<^verbatim>\<open>prctl\<close> counts whatever its arguments are.
\<close>

fun may_clear_subreaper :: "platform \<Rightarrow> call \<Rightarrow> bool" where
  "may_clear_subreaper P (Syscall n args) = (n = SYS_prctl P)"
| "may_clear_subreaper P (Prctl opt args) =
    (opt = PR_SET_CHILD_SUBREAPER P \<and> (case args of [] \<Rightarrow> True | a # _ \<Rightarrow> arg_is_zero a))"

subsection \<open>Concrete surroundings for examples\<close>

text \<open>
  The numbers of 64-bit ARM Linux, and a small kernel whose only state is the
  subreaper flag: \<^verbatim>\<open>prctl(PR_SET_CHILD_SUBREAPER, v)\<close> sets the flag to \<open>v \<noteq> 0\<close>
  and returns 0, \<^verbatim>\<open>pivot_root\<close> of the addresses 4096 and 8192 returns 0,
  \<^verbatim>\<open>pidfd_open\<close> of process 1 returns descriptor 3, \<^verbatim>\<open>pidfd_getfd\<close> of
  descriptor 0 behind descriptor 3 returns descriptor 4, every other request
  fails with \<^verbatim>\<open>EINVAL\<close> (22).
\<close>

definition aarch64 :: platform where
  "aarch64 = \<lparr>SYS_pivot_root = 41, SYS_pidfd_open = 434, SYS_pidfd_getfd = 438,
              SYS_prctl = 167, PR_SET_CHILD_SUBREAPER = 36\<rparr>"

text \<open>
  Headers of a C library for 64-bit ARM Linux that knows neither \<^verbatim>\<open>pidfd_open\<close>
  nor \<^verbatim>\<open>pidfd_getfd\<close>.
\<close>

definition old_headers :: "string \<Rightarrow> macros \<Rightarrow> macros" where
  "old_headers h m =
    (if h = ''sys/prctl.h'' then m(''PR_SET_CHILD_SUBREAPER'' \<mapsto> Num 36)
     else if h = ''sys/syscall.h'' then m(''SYS_pivot_root'' \<mapsto> Num 41, ''SYS_prctl'' \<mapsto> Num 167)
     else m)"

definition toy_syscall :: "c_long \<Rightarrow> carg list \<Rightarrow> bool \<Rightarrow> c_int \<Rightarrow> c_long \<times> bool \<times> c_int" where
  "toy_syscall n args k e =
    (if n = 41 \<and> args = [ArgPtr 4096, ArgPtr 8192] then (0, k, e)
     else if n = 434 \<and> args = [ArgInt 1, ArgUInt 0] then (3, k, e)
     else if n = 438 \<and> args = [ArgInt 3, ArgInt 0, ArgUInt 0] then (4, k, e)
     else (- 1, k, 22))"

definition toy_prctl :: "c_int \<Rightarrow> carg list \<Rightarrow> bool \<Rightarrow> c_int \<Rightarrow> c_int \<times> bool \<times> c_int" where
  "toy_prctl opt args k e =
    (if opt = 36 then
       (case args of a # _ \<Rightarrow> (0, \<not> arg_is_zero a, e) | [] \<Rightarrow> (- 1, k, 22))
     else (- 1, k, 22))"

definition toy_libc :: "bool libc" where
  "toy_libc = \<lparr>syscall = toy_syscall, prctl = toy_prctl\<rparr>"

definition boot :: "bool world" where
  "boot = \<lparr>kstate = False, errno = 0, issued = []\<rparr>"

text \<open>A later moment of the same process: the flag set, one call logged.\<close>

definition later :: "bool world" where
  "later = \<lparr>kstate = True, errno = 22, issued = [(Prctl 36 [ArgInt 1], 0)]\<rparr>"

section \<open>Properties\<close>

subsection \<open>The conversion from \<^verbatim>\<open>long\<close> to \<^verbatim>\<open>int\<close>\<close>

lemma sint_long_to_int: "sint (long_to_int r) = signed_take_bit 31 (sint r)"
  by (simp add: long_to_int_def signed_scast_eq)

lemma long_to_int_in_range:
  "- (2 ^ 31) \<le> sint r \<Longrightarrow> sint r < 2 ^ 31 \<Longrightarrow> sint (long_to_int r) = sint r"
  by (simp add: sint_long_to_int signed_take_bit_int_eq_self)

lemma long_to_int_zero: "long_to_int 0 = 0"
  by (simp add: long_to_int_def)

lemma long_to_int_minus_one: "long_to_int (- 1) = - 1"
  by (simp add: long_to_int_def)

lemma long_to_int_fd:
  "0 \<le> sint r \<Longrightarrow> sint r < 2 ^ 31 \<Longrightarrow> sint (long_to_int r) = sint r"
  by (simp add: long_to_int_in_range)

lemma long_to_int_fd_not_fail:
  assumes "0 \<le> sint r" and "sint r < 2 ^ 31"
  shows "long_to_int r \<noteq> - 1"
proof
  assume "long_to_int r = - 1"
  then have "sint (long_to_int r) = - 1" by simp
  with assms show False by (simp add: long_to_int_fd)
qed

lemma long_to_int_fail_iff:
  "r = - 1 \<or> (0 \<le> sint r \<and> sint r < 2 ^ 31) \<Longrightarrow> (long_to_int r = - 1) = (r = - 1)"
  using long_to_int_fd_not_fail [of r] by (auto simp: long_to_int_minus_one)

subsection \<open>Each function is one call and a return\<close>

lemma call_syscall_eq:
  "syscall L n args (kstate w) (errno w) = (r, k', e') \<Longrightarrow>
   call_syscall L n args w =
     (r, w\<lparr>kstate := k', errno := e', issued := issued w @ [(Syscall n args, sint r)]\<rparr>)"
  by (simp add: call_syscall_def)

lemma call_prctl_eq:
  "prctl L opt args (kstate w) (errno w) = (r, k', e') \<Longrightarrow>
   call_prctl L opt args w =
     (r, w\<lparr>kstate := k', errno := e', issued := issued w @ [(Prctl opt args, sint r)]\<rparr>)"
  by (simp add: call_prctl_def)

lemma CZ_pivot_root_eq:
  "syscall L (SYS_pivot_root P) [ArgPtr new_root, ArgPtr put_old] (kstate w) (errno w) = (r, k', e') \<Longrightarrow>
   CZ_pivot_root P L new_root put_old w =
     (long_to_int r,
      w\<lparr>kstate := k', errno := e',
        issued := issued w @ [(Syscall (SYS_pivot_root P) [ArgPtr new_root, ArgPtr put_old], sint r)]\<rparr>)"
  by (simp add: CZ_pivot_root_def call_syscall_eq)

lemma CZ_set_sub_reaper_eq:
  "prctl L (PR_SET_CHILD_SUBREAPER P) [ArgInt 1] (kstate w) (errno w) = (r, k', e') \<Longrightarrow>
   CZ_set_sub_reaper P L w =
     (r,
      w\<lparr>kstate := k', errno := e',
        issued := issued w @ [(Prctl (PR_SET_CHILD_SUBREAPER P) [ArgInt 1], sint r)]\<rparr>)"
  by (simp add: CZ_set_sub_reaper_def call_prctl_eq)

lemma CZ_pidfd_open_eq:
  "syscall L (SYS_pidfd_open P) [ArgInt pid, ArgUInt flags] (kstate w) (errno w) = (r, k', e') \<Longrightarrow>
   CZ_pidfd_open P L pid flags w =
     (long_to_int r,
      w\<lparr>kstate := k', errno := e',
        issued := issued w @ [(Syscall (SYS_pidfd_open P) [ArgInt pid, ArgUInt flags], sint r)]\<rparr>)"
  by (simp add: CZ_pidfd_open_def call_syscall_eq)

lemma CZ_pidfd_getfd_eq:
  "syscall L (SYS_pidfd_getfd P) [ArgInt pidfd, ArgInt targetfd, ArgUInt flags] (kstate w) (errno w) = (r, k', e') \<Longrightarrow>
   CZ_pidfd_getfd P L pidfd targetfd flags w =
     (long_to_int r,
      w\<lparr>kstate := k', errno := e',
        issued := issued w @
          [(Syscall (SYS_pidfd_getfd P) [ArgInt pidfd, ArgInt targetfd, ArgUInt flags], sint r)]\<rparr>)"
  by (simp add: CZ_pidfd_getfd_def call_syscall_eq)

subsection \<open>\<^verbatim>\<open>CZ_pivot_root\<close>\<close>

text \<open>
  C1. For every \<open>new_root\<close> and \<open>put_old\<close>, \<^verbatim>\<open>CZ_pivot_root\<close> checks nothing: it
  makes the one request \<^verbatim>\<open>syscall(SYS_pivot_root, new_root, put_old)\<close>, both
  pointers unchanged and in that order, and returns its result: 0 when it is 0,
  -1 when it is -1, with the kernel state and \<^verbatim>\<open>errno\<close> exactly as the request
  left them.
\<close>

theorem CZ_pivot_root_pass_through:
  assumes "syscall L (SYS_pivot_root P) [ArgPtr new_root, ArgPtr put_old] (kstate w) (errno w) = (r, k', e')"
  shows "CZ_pivot_root P L new_root put_old w =
           (long_to_int r,
            w\<lparr>kstate := k', errno := e',
              issued := issued w @ [(Syscall (SYS_pivot_root P) [ArgPtr new_root, ArgPtr put_old], sint r)]\<rparr>) \<and>
         (r = 0 \<longrightarrow> fst (CZ_pivot_root P L new_root put_old w) = 0) \<and>
         (r = - 1 \<longrightarrow> fst (CZ_pivot_root P L new_root put_old w) = - 1 \<and>
                      errno (snd (CZ_pivot_root P L new_root put_old w)) = e')"
  using assms by (simp add: CZ_pivot_root_eq long_to_int_zero long_to_int_minus_one)

theorem CZ_pivot_root_pass_through_witness:
  "syscall toy_libc (SYS_pivot_root aarch64) [ArgPtr 4096, ArgPtr 8192] (kstate boot) (errno boot) = (0, False, 0) \<and>
   CZ_pivot_root aarch64 toy_libc 4096 8192 boot =
     (0, boot\<lparr>issued := [(Syscall 41 [ArgPtr 4096, ArgPtr 8192], 0)]\<rparr>) \<and>
   syscall toy_libc (SYS_pivot_root aarch64) [ArgPtr 0, ArgPtr 0] (kstate boot) (errno boot) = (- 1, False, 22) \<and>
   CZ_pivot_root aarch64 toy_libc 0 0 boot =
     (- 1, boot\<lparr>errno := 22, issued := [(Syscall 41 [ArgPtr 0, ArgPtr 0], - 1)]\<rparr>)"
  using CZ_pivot_root_pass_through [of toy_libc aarch64 4096 8192 boot 0 False 0]
    CZ_pivot_root_pass_through [of toy_libc aarch64 0 0 boot "- 1" False 22]
  by (simp add: toy_libc_def toy_syscall_def aarch64_def boot_def long_to_int_def)

subsection \<open>\<^verbatim>\<open>CZ_set_sub_reaper\<close>\<close>

text \<open>
  C2. \<^verbatim>\<open>CZ_set_sub_reaper\<close> takes no argument, makes the one request
  \<^verbatim>\<open>prctl(PR_SET_CHILD_SUBREAPER, 1)\<close> and returns its result: 0 on success,
  -1 on failure.
\<close>

theorem CZ_set_sub_reaper_request:
  assumes "prctl L (PR_SET_CHILD_SUBREAPER P) [ArgInt 1] (kstate w) (errno w) = (r, k', e')"
  shows "CZ_set_sub_reaper P L w =
           (r,
            w\<lparr>kstate := k', errno := e',
              issued := issued w @ [(Prctl (PR_SET_CHILD_SUBREAPER P) [ArgInt 1], sint r)]\<rparr>) \<and>
         (r = 0 \<longrightarrow> fst (CZ_set_sub_reaper P L w) = 0) \<and>
         (r = - 1 \<longrightarrow> fst (CZ_set_sub_reaper P L w) = - 1)"
  using assms by (simp add: CZ_set_sub_reaper_eq)

theorem CZ_set_sub_reaper_request_witness:
  "prctl toy_libc (PR_SET_CHILD_SUBREAPER aarch64) [ArgInt 1] (kstate boot) (errno boot) = (0, True, 0) \<and>
   CZ_set_sub_reaper aarch64 toy_libc boot =
     (0, boot\<lparr>kstate := True, issued := [(Prctl 36 [ArgInt 1], 0)]\<rparr>)"
  using CZ_set_sub_reaper_request [of toy_libc aarch64 boot 0 True 0]
  by (simp add: toy_libc_def toy_prctl_def aarch64_def boot_def)

subsection \<open>\<^verbatim>\<open>CZ_pidfd_open\<close>\<close>

text \<open>
  C3. For every \<open>pid\<close> and \<open>flags\<close>, \<^verbatim>\<open>CZ_pidfd_open\<close> makes the one request
  \<^verbatim>\<open>syscall(SYS_pidfd_open, pid, flags)\<close> and adds nothing to its answer. When
  the answer is a descriptor (non-negative, in the range of \<^verbatim>\<open>int\<close>) the function
  returns that descriptor; when it is -1 the function returns -1 with \<^verbatim>\<open>errno\<close> as
  the request left it; under these two answers the function returns -1 exactly
  when the request failed, so there is no third outcome.
\<close>

theorem CZ_pidfd_open_fd_or_fail:
  assumes "syscall L (SYS_pidfd_open P) [ArgInt pid, ArgUInt flags] (kstate w) (errno w) = (r, k', e')"
  shows "CZ_pidfd_open P L pid flags w =
           (long_to_int r,
            w\<lparr>kstate := k', errno := e',
              issued := issued w @ [(Syscall (SYS_pidfd_open P) [ArgInt pid, ArgUInt flags], sint r)]\<rparr>) \<and>
         (0 \<le> sint r \<and> sint r < 2 ^ 31 \<longrightarrow>
            sint (fst (CZ_pidfd_open P L pid flags w)) = sint r \<and>
            0 \<le> sint (fst (CZ_pidfd_open P L pid flags w))) \<and>
         (r = - 1 \<longrightarrow> fst (CZ_pidfd_open P L pid flags w) = - 1 \<and>
                      errno (snd (CZ_pidfd_open P L pid flags w)) = e') \<and>
         (r = - 1 \<or> (0 \<le> sint r \<and> sint r < 2 ^ 31) \<longrightarrow>
            (fst (CZ_pidfd_open P L pid flags w) = - 1) = (r = - 1))"
  using assms
  by (simp add: CZ_pidfd_open_eq long_to_int_fd long_to_int_minus_one long_to_int_fail_iff)

theorem CZ_pidfd_open_fd_or_fail_witness:
  "syscall toy_libc (SYS_pidfd_open aarch64) [ArgInt 1, ArgUInt 0] (kstate boot) (errno boot) = (3, False, 0) \<and>
   0 \<le> sint (3 :: c_long) \<and> sint (3 :: c_long) < 2 ^ 31 \<and>
   CZ_pidfd_open aarch64 toy_libc 1 0 boot =
     (3, boot\<lparr>issued := [(Syscall 434 [ArgInt 1, ArgUInt 0], 3)]\<rparr>) \<and>
   syscall toy_libc (SYS_pidfd_open aarch64) [ArgInt 2, ArgUInt 0] (kstate boot) (errno boot) = (- 1, False, 22) \<and>
   CZ_pidfd_open aarch64 toy_libc 2 0 boot =
     (- 1, boot\<lparr>errno := 22, issued := [(Syscall 434 [ArgInt 2, ArgUInt 0], - 1)]\<rparr>)"
  using CZ_pidfd_open_fd_or_fail [of toy_libc aarch64 1 0 boot 3 False 0]
    CZ_pidfd_open_fd_or_fail [of toy_libc aarch64 2 0 boot "- 1" False 22]
  by (simp add: toy_libc_def toy_syscall_def aarch64_def boot_def long_to_int_def)

subsection \<open>\<^verbatim>\<open>CZ_pidfd_getfd\<close>\<close>

text \<open>
  C4. For every \<open>pidfd\<close>, \<open>targetfd\<close> and \<open>flags\<close>, \<^verbatim>\<open>CZ_pidfd_getfd\<close> makes the
  one request \<^verbatim>\<open>syscall(SYS_pidfd_getfd, pidfd, targetfd, flags)\<close>, the three
  arguments unchanged, and returns: the new descriptor when the answer is one,
  -1 with the kernel's \<^verbatim>\<open>errno\<close> when the answer is -1 (a bad \<open>pidfd\<close>, a bad
  \<open>targetfd\<close>, or the target gone in between). Whatever the answer, the function
  returns after that single request: it does not retry or loop.
\<close>

theorem CZ_pidfd_getfd_fd_or_fail:
  assumes "syscall L (SYS_pidfd_getfd P) [ArgInt pidfd, ArgInt targetfd, ArgUInt flags] (kstate w) (errno w) = (r, k', e')"
  shows "CZ_pidfd_getfd P L pidfd targetfd flags w =
           (long_to_int r,
            w\<lparr>kstate := k', errno := e',
              issued := issued w @
                [(Syscall (SYS_pidfd_getfd P) [ArgInt pidfd, ArgInt targetfd, ArgUInt flags], sint r)]\<rparr>) \<and>
         (0 \<le> sint r \<and> sint r < 2 ^ 31 \<longrightarrow>
            sint (fst (CZ_pidfd_getfd P L pidfd targetfd flags w)) = sint r \<and>
            0 \<le> sint (fst (CZ_pidfd_getfd P L pidfd targetfd flags w))) \<and>
         (r = - 1 \<longrightarrow> fst (CZ_pidfd_getfd P L pidfd targetfd flags w) = - 1 \<and>
                      errno (snd (CZ_pidfd_getfd P L pidfd targetfd flags w)) = e') \<and>
         (r = - 1 \<or> (0 \<le> sint r \<and> sint r < 2 ^ 31) \<longrightarrow>
            (fst (CZ_pidfd_getfd P L pidfd targetfd flags w) = - 1) = (r = - 1))"
  using assms
  by (simp add: CZ_pidfd_getfd_eq long_to_int_fd long_to_int_minus_one long_to_int_fail_iff)

theorem CZ_pidfd_getfd_fd_or_fail_witness:
  "syscall toy_libc (SYS_pidfd_getfd aarch64) [ArgInt 3, ArgInt 0, ArgUInt 0] (kstate boot) (errno boot) = (4, False, 0) \<and>
   0 \<le> sint (4 :: c_long) \<and> sint (4 :: c_long) < 2 ^ 31 \<and>
   CZ_pidfd_getfd aarch64 toy_libc 3 0 0 boot =
     (4, boot\<lparr>issued := [(Syscall 438 [ArgInt 3, ArgInt 0, ArgUInt 0], 4)]\<rparr>) \<and>
   syscall toy_libc (SYS_pidfd_getfd aarch64) [ArgInt 9, ArgInt 0, ArgUInt 0] (kstate boot) (errno boot) = (- 1, False, 22) \<and>
   CZ_pidfd_getfd aarch64 toy_libc 9 0 0 boot =
     (- 1, boot\<lparr>errno := 22, issued := [(Syscall 438 [ArgInt 9, ArgInt 0, ArgUInt 0], - 1)]\<rparr>)"
  using CZ_pidfd_getfd_fd_or_fail [of toy_libc aarch64 3 0 0 boot 4 False 0]
    CZ_pidfd_getfd_fd_or_fail [of toy_libc aarch64 9 0 0 boot "- 1" False 22]
  by (simp add: toy_libc_def toy_syscall_def aarch64_def boot_def long_to_int_def)

subsection \<open>The fallback numbers of the header\<close>

lemma pps_syscall_h_first:
  assumes "m ''__SYSCALL_H'' = None"
  shows "pps sys syscall_h m =
    pps sys [Ifndef ''SYS_pidfd_open'' [Define ''SYS_pidfd_open'' (Num 434)],
             Ifndef ''SYS_pidfd_getfd'' [Define ''SYS_pidfd_getfd'' (Num 438)]]
      (sys ''sys/types.h'' (m(''__SYSCALL_H'' \<mapsto> Blank)))"
  using assms by (simp add: syscall_h_def)

lemma pps_syscall_h_again:
  "m ''__SYSCALL_H'' \<noteq> None \<Longrightarrow> pps sys syscall_h m = m"
  by (auto simp: syscall_h_def)

lemma pps_fallbacks:
  "pps sys [Ifndef ''SYS_pidfd_open'' [Define ''SYS_pidfd_open'' (Num 434)],
            Ifndef ''SYS_pidfd_getfd'' [Define ''SYS_pidfd_getfd'' (Num 438)]] lib name =
   (if name = ''SYS_pidfd_open'' \<and> lib name = None then Some (Num 434)
    else if name = ''SYS_pidfd_getfd'' \<and> lib name = None then Some (Num 438)
    else lib name)"
  by (auto split: option.splits)

lemma platform_of_old_headers: "platform_of old_headers = Some aarch64"
  by (simp add: platform_of_def syscall_c_includes_def syscall_h_def old_headers_def
      macro_num_def aarch64_def)

text \<open>
  C5. Where the header is read for the first time (its guard \<^verbatim>\<open>__SYSCALL_H\<close> is
  not defined yet), \<open>lib\<close> being the macros the C library has defined when the
  two tests are reached: \<^verbatim>\<open>SYS_pidfd_open\<close> becomes 434 exactly when the C library
  has not defined it and keeps the library's definition otherwise,
  \<^verbatim>\<open>SYS_pidfd_getfd\<close> likewise with 438, and no other name is given a value.
  Read again, the header changes nothing.
\<close>

theorem syscall_h_fallback_numbers:
  "(m ''__SYSCALL_H'' = None \<and> lib = sys ''sys/types.h'' (m(''__SYSCALL_H'' \<mapsto> Blank)) \<longrightarrow>
      (lib ''SYS_pidfd_open'' = None \<longrightarrow>
         pps sys syscall_h m ''SYS_pidfd_open'' = Some (Num 434)) \<and>
      (lib ''SYS_pidfd_open'' \<noteq> None \<longrightarrow>
         pps sys syscall_h m ''SYS_pidfd_open'' = lib ''SYS_pidfd_open'') \<and>
      (lib ''SYS_pidfd_getfd'' = None \<longrightarrow>
         pps sys syscall_h m ''SYS_pidfd_getfd'' = Some (Num 438)) \<and>
      (lib ''SYS_pidfd_getfd'' \<noteq> None \<longrightarrow>
         pps sys syscall_h m ''SYS_pidfd_getfd'' = lib ''SYS_pidfd_getfd'') \<and>
      (name \<noteq> ''SYS_pidfd_open'' \<and> name \<noteq> ''SYS_pidfd_getfd'' \<longrightarrow>
         pps sys syscall_h m name = lib name)) \<and>
   (m ''__SYSCALL_H'' \<noteq> None \<longrightarrow> pps sys syscall_h m = m)"
  by (simp add: pps_syscall_h_first pps_syscall_h_again pps_fallbacks del: pps.simps pp.simps)

theorem syscall_h_fallback_numbers_witness:
  "Map.empty ''__SYSCALL_H'' = None \<and>
   old_headers ''sys/types.h'' (Map.empty(''__SYSCALL_H'' \<mapsto> Blank)) ''SYS_pidfd_open'' = None \<and>
   old_headers ''sys/types.h'' (Map.empty(''__SYSCALL_H'' \<mapsto> Blank)) ''SYS_pidfd_getfd'' = None \<and>
   pps old_headers syscall_h Map.empty ''SYS_pidfd_open'' = Some (Num 434) \<and>
   pps old_headers syscall_h Map.empty ''SYS_pidfd_getfd'' = Some (Num 438) \<and>
   [''SYS_pidfd_open'' \<mapsto> Num 544] ''__SYSCALL_H'' = None \<and>
   pps (\<lambda>h m. m) syscall_h [''SYS_pidfd_open'' \<mapsto> Num 544] ''SYS_pidfd_open'' = Some (Num 544) \<and>
   pps (\<lambda>h m. m) syscall_h [''SYS_pidfd_open'' \<mapsto> Num 544] ''SYS_pidfd_getfd'' = Some (Num 438)"
  using syscall_h_fallback_numbers [of Map.empty _ old_headers]
    syscall_h_fallback_numbers [of "[''SYS_pidfd_open'' \<mapsto> Num 544]" _ "\<lambda>h m. m"]
  by (simp add: old_headers_def)

subsection \<open>Every operation is its request and nothing else\<close>

lemma answer_SyscallE:
  assumes "answer L (Syscall n args) k e = (v, k', e')"
  obtains r where "syscall L n args k e = (r, k', e')" and "v = sint r"
  using assms by (auto split: prod.splits)

lemma answer_PrctlE:
  assumes "answer L (Prctl opt args) k e = (v, k', e')"
  obtains r where "prctl L opt args k e = (r, k', e')" and "v = sint r"
  using assms by (auto split: prod.splits)

lemma run_op_eq:
  assumes "answer L (request_of P x) (kstate w) (errno w) = (v, k', e')"
  shows "run_op P L x w =
           (word_of_int v,
            w\<lparr>kstate := k', errno := e', issued := issued w @ [(request_of P x, v)]\<rparr>)"
proof (cases x)
  case (Pivot_root new_root put_old)
  from assms obtain r where
    "syscall L (SYS_pivot_root P) [ArgPtr new_root, ArgPtr put_old] (kstate w) (errno w) = (r, k', e')"
    and "v = sint r"
    unfolding Pivot_root request_of.simps by (rule answer_SyscallE)
  then show ?thesis
    by (simp add: Pivot_root CZ_pivot_root_eq long_to_int_def)
next
  case Set_sub_reaper
  from assms obtain r where
    "prctl L (PR_SET_CHILD_SUBREAPER P) [ArgInt 1] (kstate w) (errno w) = (r, k', e')"
    and "v = sint r"
    unfolding Set_sub_reaper request_of.simps by (rule answer_PrctlE)
  then show ?thesis
    by (simp add: Set_sub_reaper CZ_set_sub_reaper_eq)
next
  case (Pidfd_open pid flags)
  from assms obtain r where
    "syscall L (SYS_pidfd_open P) [ArgInt pid, ArgUInt flags] (kstate w) (errno w) = (r, k', e')"
    and "v = sint r"
    unfolding Pidfd_open request_of.simps by (rule answer_SyscallE)
  then show ?thesis
    by (simp add: Pidfd_open CZ_pidfd_open_eq long_to_int_def)
next
  case (Pidfd_getfd pidfd targetfd flags)
  from assms obtain r where
    "syscall L (SYS_pidfd_getfd P) [ArgInt pidfd, ArgInt targetfd, ArgUInt flags] (kstate w) (errno w) =
       (r, k', e')"
    and "v = sint r"
    unfolding Pidfd_getfd request_of.simps by (rule answer_SyscallE)
  then show ?thesis
    by (simp add: Pidfd_getfd CZ_pidfd_getfd_eq long_to_int_def)
qed

lemma answer_cases:
  obtains v k' e' where "answer L c k e = (v, k', e')"
  using prod_cases3 by blast

lemma word_of_int_minus_one_iff:
  assumes "- (2 ^ 31) \<le> v" and "v < 2 ^ 31"
  shows "((word_of_int v :: c_int) = - 1) = (v = - 1)"
proof
  assume "(word_of_int v :: c_int) = - 1"
  then have "sint (word_of_int v :: c_int) = - 1" by simp
  with assms show "v = - 1"
    by (simp add: signed_of_int signed_take_bit_int_eq_self)
next
  assume "v = - 1"
  then show "(word_of_int v :: c_int) = - 1" by simp
qed

subsection \<open>Failure\<close>

text \<open>
  C6. For each of the four operations and every input, the request is made
  whatever the arguments are, and when the C library answers -1 the operation
  returns -1 after that single request, with the kernel state and \<^verbatim>\<open>errno\<close>
  exactly as the request left them: no check, no retry, no translation.
  Conversely, for an answer in the range of \<^verbatim>\<open>int\<close>, the operation returns -1
  only when the answer was -1.
\<close>

theorem failure_is_minus_one_with_errno:
  "(answer L (request_of P x) (kstate w) (errno w) = (- 1, k', e') \<longrightarrow>
      run_op P L x w =
        (- 1, w\<lparr>kstate := k', errno := e', issued := issued w @ [(request_of P x, - 1)]\<rparr>)) \<and>
   (answer L (request_of P x) (kstate w) (errno w) = (v, k', e') \<and>
    - (2 ^ 31) \<le> v \<and> v < 2 ^ 31 \<and> fst (run_op P L x w) = - 1 \<longrightarrow> v = - 1)"
proof (intro conjI impI)
  assume "answer L (request_of P x) (kstate w) (errno w) = (- 1, k', e')"
  from run_op_eq [OF this]
  show "run_op P L x w =
    (- 1, w\<lparr>kstate := k', errno := e', issued := issued w @ [(request_of P x, - 1)]\<rparr>)"
    by simp
next
  assume a: "answer L (request_of P x) (kstate w) (errno w) = (v, k', e') \<and>
    - (2 ^ 31) \<le> v \<and> v < 2 ^ 31 \<and> fst (run_op P L x w) = - 1"
  then have "(word_of_int v :: c_int) = - 1"
    using run_op_eq [of L P x w v k' e'] by simp
  with a show "v = - 1"
    using word_of_int_minus_one_iff [of v] by simp
qed

theorem failure_is_minus_one_with_errno_witness:
  "answer toy_libc (request_of aarch64 (Pidfd_getfd 9 0 0)) (kstate boot) (errno boot) = (- 1, False, 22) \<and>
   run_op aarch64 toy_libc (Pidfd_getfd 9 0 0) boot =
     (- 1, boot\<lparr>errno := 22, issued := [(Syscall 438 [ArgInt 9, ArgInt 0, ArgUInt 0], - 1)]\<rparr>) \<and>
   answer toy_libc (request_of aarch64 (Pivot_root 0 0)) (kstate boot) (errno boot) = (- 1, False, 22) \<and>
   run_op aarch64 toy_libc (Pivot_root 0 0) boot =
     (- 1, boot\<lparr>errno := 22, issued := [(Syscall 41 [ArgPtr 0, ArgPtr 0], - 1)]\<rparr>)"
  using failure_is_minus_one_with_errno [of toy_libc aarch64 "Pidfd_getfd 9 0 0" boot False 22]
    failure_is_minus_one_with_errno [of toy_libc aarch64 "Pivot_root 0 0" boot False 22]
  by (simp add: toy_libc_def toy_syscall_def aarch64_def boot_def)

subsection \<open>No state of its own\<close>

text \<open>
  C7. The layer has no variable of its own: the request an operation makes is
  fixed by its arguments alone, and two calls of the same operation with the
  same arguments, in any two worlds and against any two kernels, return the
  same value whenever the two requests are answered with the same value.
\<close>

theorem result_depends_on_answer_only:
  fixes w1 :: "('k1, 'm1) world_scheme" and w2 :: "('k2, 'm2) world_scheme"
  assumes "answer L1 (request_of P x) (kstate w1) (errno w1) = (v1, k1, e1)"
    and "answer L2 (request_of P x) (kstate w2) (errno w2) = (v2, k2, e2)"
  shows "issued (snd (run_op P L1 x w1)) = issued w1 @ [(request_of P x, v1)] \<and>
         issued (snd (run_op P L2 x w2)) = issued w2 @ [(request_of P x, v2)] \<and>
         (v1 = v2 \<longrightarrow> fst (run_op P L1 x w1) = fst (run_op P L2 x w2))"
  using run_op_eq [OF assms(1)] run_op_eq [OF assms(2)] by simp

theorem result_depends_on_answer_only_witness:
  "answer toy_libc (request_of aarch64 (Pidfd_open 1 0)) (kstate boot) (errno boot) = (3, False, 0) \<and>
   answer toy_libc (request_of aarch64 (Pidfd_open 1 0)) (kstate later) (errno later) = (3, True, 22) \<and>
   fst (run_op aarch64 toy_libc (Pidfd_open 1 0) boot) =
   fst (run_op aarch64 toy_libc (Pidfd_open 1 0) later)"
  using result_depends_on_answer_only
    [of toy_libc aarch64 "Pidfd_open 1 0" boot 3 False 0 toy_libc later 3 True 22]
  by (simp add: toy_libc_def toy_syscall_def aarch64_def boot_def later_def)

subsection \<open>Frame\<close>

text \<open>
  C9. Every operation makes exactly one request per call. The world after the
  call is the world before it with the kernel state and \<^verbatim>\<open>errno\<close> the request
  left and one more entry in the log; the request carries the caller's values
  as given; everything else the caller owns (the \<open>more\<close> part of the world) is
  unchanged.
\<close>

theorem one_request_and_nothing_else:
  assumes "answer L (request_of P x) (kstate w) (errno w) = (v, k', e')"
  shows "run_op P L x w =
           (word_of_int v,
            w\<lparr>kstate := k', errno := e', issued := issued w @ [(request_of P x, v)]\<rparr>) \<and>
         length (issued (snd (run_op P L x w))) = Suc (length (issued w)) \<and>
         world.more (snd (run_op P L x w)) = world.more w"
  using run_op_eq [OF assms] by simp

theorem one_request_and_nothing_else_witness:
  "answer toy_libc (request_of aarch64 Set_sub_reaper) (kstate boot) (errno boot) = (0, True, 0) \<and>
   run_op aarch64 toy_libc Set_sub_reaper boot =
     (0, boot\<lparr>kstate := True, issued := [(Prctl 36 [ArgInt 1], 0)]\<rparr>)"
  using one_request_and_nothing_else [of toy_libc aarch64 Set_sub_reaper boot 0 True 0]
  by (simp add: toy_libc_def toy_prctl_def aarch64_def boot_def)

subsection \<open>The subreaper flag is never cleared\<close>

lemma request_of_no_clear:
  assumes "SYS_prctl P \<notin> {SYS_pivot_root P, SYS_pidfd_open P, SYS_pidfd_getfd P}"
  shows "\<not> may_clear_subreaper P (request_of P x)"
  using assms by (cases x) auto

lemma request_of_Prctl:
  "request_of P x = Prctl opt args \<Longrightarrow> opt = PR_SET_CHILD_SUBREAPER P \<and> args = [ArgInt 1]"
  by (cases x) auto

lemma run_op_step:
  "\<exists>v. issued (snd (run_op P L x w)) = issued w @ [(request_of P x, v)] \<and>
        kstate (snd (run_op P L x w)) =
          fst (snd (answer L (request_of P x) (kstate w) (errno w)))"
proof -
  obtain v k' e' where a: "answer L (request_of P x) (kstate w) (errno w) = (v, k', e')"
    by (rule answer_cases)
  from run_op_eq [OF a] a show ?thesis by simp
qed

lemma snd_run_ops_Cons:
  "snd (run_ops P L (x # xs) w) = snd (run_ops P L xs (snd (run_op P L x w)))"
  by (simp split: prod.splits)

lemma run_ops_issued:
  "\<exists>new. issued (snd (run_ops P L xs w)) = issued w @ new \<and> map fst new = map (request_of P) xs"
proof (induction xs arbitrary: w)
  case Nil
  show ?case by simp
next
  case (Cons x xs)
  obtain r w' where step: "run_op P L x w = (r, w')"
    by (cases "run_op P L x w")
  obtain v where one: "issued w' = issued w @ [(request_of P x, v)]"
    using run_op_step [of P L x w] step by auto
  obtain new where rest: "issued (snd (run_ops P L xs w')) = issued w' @ new"
    and reqs: "map fst new = map (request_of P) xs"
    using Cons.IH [of w'] by blast
  have "issued (snd (run_ops P L (x # xs) w)) = issued w @ ((request_of P x, v) # new)"
    using step one rest by (simp add: snd_run_ops_Cons del: run_ops.simps)
  moreover have "map fst ((request_of P x, v) # new) = map (request_of P) (x # xs)"
    using reqs by simp
  ultimately show ?case by blast
qed

lemma run_ops_flag:
  assumes frame: "\<And>c k e. \<not> may_clear_subreaper P c \<Longrightarrow> flag k \<Longrightarrow> flag (fst (snd (answer L c k e)))"
    and distinct: "SYS_prctl P \<notin> {SYS_pivot_root P, SYS_pidfd_open P, SYS_pidfd_getfd P}"
  shows "flag (kstate w) \<Longrightarrow> flag (kstate (snd (run_ops P L xs w)))"
proof (induction xs arbitrary: w)
  case Nil
  then show ?case by simp
next
  case (Cons x xs)
  obtain r w' where step: "run_op P L x w = (r, w')"
    by (cases "run_op P L x w")
  have "kstate w' = fst (snd (answer L (request_of P x) (kstate w) (errno w)))"
    using run_op_step [of P L x w] step by auto
  with Cons.prems have "flag (kstate w')"
    by (simp add: frame request_of_no_clear [OF distinct])
  then have "flag (kstate (snd (run_ops P L xs w')))"
    by (rule Cons.IH)
  with step show ?case
    by (simp add: snd_run_ops_Cons del: run_ops.simps)
qed

lemma toy_libc_frame:
  "\<not> may_clear_subreaper aarch64 c \<and> k \<longrightarrow> fst (snd (answer toy_libc c k e))"
  by (cases c) (auto simp: toy_libc_def toy_syscall_def toy_prctl_def aarch64_def split: list.splits)

text \<open>
  C8. In every sequence of calls into the layer, each call makes one request;
  every \<^verbatim>\<open>prctl\<close> among them is \<^verbatim>\<open>prctl(PR_SET_CHILD_SUBREAPER, 1)\<close>; and, on a
  platform where \<^verbatim>\<open>pivot_root\<close>, \<^verbatim>\<open>pidfd_open\<close> and \<^verbatim>\<open>pidfd_getfd\<close> do not share
  their number with \<^verbatim>\<open>prctl\<close>, no request can clear the subreaper flag. So
  against any kernel that keeps the flag over every request that cannot clear
  it, a flag that is set before the sequence is set after it.
\<close>

theorem subreaper_never_cleared:
  "\<exists>new. issued (snd (run_ops P L xs w)) = issued w @ new \<and>
     length new = length xs \<and>
     (\<forall>ev \<in> set new. \<forall>opt args. fst ev = Prctl opt args \<longrightarrow>
        opt = PR_SET_CHILD_SUBREAPER P \<and> args = [ArgInt 1]) \<and>
     (SYS_prctl P \<notin> {SYS_pivot_root P, SYS_pidfd_open P, SYS_pidfd_getfd P} \<longrightarrow>
        (\<forall>ev \<in> set new. \<not> may_clear_subreaper P (fst ev)) \<and>
        ((\<forall>c k e. \<not> may_clear_subreaper P c \<and> flag k \<longrightarrow> flag (fst (snd (answer L c k e)))) \<and>
         flag (kstate w) \<longrightarrow>
           flag (kstate (snd (run_ops P L xs w)))))"
proof -
  obtain new where log: "issued (snd (run_ops P L xs w)) = issued w @ new"
    and reqs: "map fst new = map (request_of P) xs"
    using run_ops_issued by blast
  from reqs have len: "length new = length xs"
    using length_map by metis
  have from_op: "\<exists>x. fst ev = request_of P x" if "ev \<in> set new" for ev
  proof -
    from that have "fst ev \<in> set (map fst new)" by simp
    then show ?thesis unfolding reqs by auto
  qed
  have only_set: "\<forall>ev \<in> set new. \<forall>opt args. fst ev = Prctl opt args \<longrightarrow>
      opt = PR_SET_CHILD_SUBREAPER P \<and> args = [ArgInt 1]"
    using from_op request_of_Prctl by metis
  have no_clear: "\<forall>ev \<in> set new. \<not> may_clear_subreaper P (fst ev)"
    if "SYS_prctl P \<notin> {SYS_pivot_root P, SYS_pidfd_open P, SYS_pidfd_getfd P}"
    using from_op request_of_no_clear [OF that] by metis
  have kept: "flag (kstate (snd (run_ops P L xs w)))"
    if "SYS_prctl P \<notin> {SYS_pivot_root P, SYS_pidfd_open P, SYS_pidfd_getfd P}"
      and "\<forall>c k e. \<not> may_clear_subreaper P c \<and> flag k \<longrightarrow> flag (fst (snd (answer L c k e)))"
      and "flag (kstate w)"
    using that by (intro run_ops_flag [where flag = flag]) auto
  from log len only_set no_clear kept show ?thesis by blast
qed

theorem subreaper_never_cleared_witness:
  "SYS_prctl aarch64 \<notin> {SYS_pivot_root aarch64, SYS_pidfd_open aarch64, SYS_pidfd_getfd aarch64} \<and>
   kstate later \<and>
   kstate (snd (run_ops aarch64 toy_libc
     [Pidfd_open 1 0, Set_sub_reaper, Pivot_root 0 0, Pidfd_getfd 3 0 0] later))"
  using subreaper_never_cleared
    [of aarch64 toy_libc "[Pidfd_open 1 0, Set_sub_reaper, Pivot_root 0 0, Pidfd_getfd 3 0 0]"
      later "\<lambda>k. k"]
    toy_libc_frame
  by (auto simp: aarch64_def later_def)

subsection \<open>Width of the value returned\<close>

text \<open>
  C10. \<^verbatim>\<open>CZ_pivot_root\<close>, \<^verbatim>\<open>CZ_pidfd_open\<close> and \<^verbatim>\<open>CZ_pidfd_getfd\<close> return \<^verbatim>\<open>int\<close>
  while \<^verbatim>\<open>syscall\<close> returns \<^verbatim>\<open>long\<close>: the caller receives the result of
  \<^verbatim>\<open>syscall\<close> reduced to the signed 32-bit range, and receives it unchanged
  whenever it lies in that range (as 0, -1 and every file descriptor do).
\<close>

theorem wrappers_reduce_long_to_int:
  "(syscall L (SYS_pivot_root P) [ArgPtr new_root, ArgPtr put_old] (kstate w) (errno w) = (r, k', e') \<longrightarrow>
      sint (fst (CZ_pivot_root P L new_root put_old w)) = signed_take_bit 31 (sint r) \<and>
      (- (2 ^ 31) \<le> sint r \<and> sint r < 2 ^ 31 \<longrightarrow>
         sint (fst (CZ_pivot_root P L new_root put_old w)) = sint r)) \<and>
   (syscall L (SYS_pidfd_open P) [ArgInt pid, ArgUInt flags] (kstate w) (errno w) = (r, k', e') \<longrightarrow>
      sint (fst (CZ_pidfd_open P L pid flags w)) = signed_take_bit 31 (sint r) \<and>
      (- (2 ^ 31) \<le> sint r \<and> sint r < 2 ^ 31 \<longrightarrow>
         sint (fst (CZ_pidfd_open P L pid flags w)) = sint r)) \<and>
   (syscall L (SYS_pidfd_getfd P) [ArgInt pidfd, ArgInt targetfd, ArgUInt flags] (kstate w) (errno w) = (r, k', e') \<longrightarrow>
      sint (fst (CZ_pidfd_getfd P L pidfd targetfd flags w)) = signed_take_bit 31 (sint r) \<and>
      (- (2 ^ 31) \<le> sint r \<and> sint r < 2 ^ 31 \<longrightarrow>
         sint (fst (CZ_pidfd_getfd P L pidfd targetfd flags w)) = sint r))"
  by (simp add: CZ_pivot_root_eq CZ_pidfd_open_eq CZ_pidfd_getfd_eq sint_long_to_int
      signed_take_bit_int_eq_self)

theorem wrappers_reduce_long_to_int_witness:
  "syscall toy_libc (SYS_pidfd_open aarch64) [ArgInt 1, ArgUInt 0] (kstate boot) (errno boot) = (3, False, 0) \<and>
   - (2 ^ 31) \<le> sint (3 :: c_long) \<and> sint (3 :: c_long) < 2 ^ 31 \<and>
   sint (fst (CZ_pidfd_open aarch64 toy_libc 1 0 boot)) = 3"
  using wrappers_reduce_long_to_int [of toy_libc aarch64 _ _ boot 3 False 0 1 0]
  by (simp add: toy_libc_def toy_syscall_def aarch64_def boot_def)

end
